theory Spec2Isabelle
  imports Main "HOL-Library.Mapping" "HOL-Library.AList_Mapping"
begin

section \<open>metaclean: tag registry and tag mappings\<close>

text \<open>
  An EXIF value is a string, an integer or raw bytes. A tag mapping (Pillow's
  \<open>Image.Exif\<close>, a mutable mapping from integer tag ids to values) is a finite mapping.
\<close>

datatype exif_value = EStr string | EInt int | EBytes "nat list"

type_synonym exif = "(nat, exif_value) mapping"

text \<open>
  \<open>EXIF_TAGS_REVERSE = {v: k for k, v in ExifTags.TAGS.items()}\<close>: the name-to-id
  table of the codec library, restricted to the four names the program looks up. The ids
  are those of the EXIF standard registry.
\<close>

definition EXIF_TAGS_REVERSE :: "string \<Rightarrow> nat option" where
  "EXIF_TAGS_REVERSE = map_of
     [(''DateTimeOriginal'', 36867), (''Orientation'', 274),
      (''Copyright'', 33432), (''GPSInfo'', 34853)]"

definition TAG_DATETIME_ORIGINAL :: "nat option" where
  "TAG_DATETIME_ORIGINAL = EXIF_TAGS_REVERSE ''DateTimeOriginal''"

definition TAG_ORIENTATION :: "nat option" where
  "TAG_ORIENTATION = EXIF_TAGS_REVERSE ''Orientation''"

definition TAG_COPYRIGHT :: "nat option" where
  "TAG_COPYRIGHT = EXIF_TAGS_REVERSE ''Copyright''"

definition TAG_GPS_IFD :: nat where
  "TAG_GPS_IFD = (case EXIF_TAGS_REVERSE ''GPSInfo'' of Some t \<Rightarrow> t | None \<Rightarrow> 34853)"

text \<open>\<open>tag in exif\<close> for a tag that is the result of a registry lookup.\<close>

definition tag_in :: "nat option \<Rightarrow> exif \<Rightarrow> bool" where
  "tag_in tag m = (case tag of None \<Rightarrow> False | Some t \<Rightarrow> Mapping.lookup m t \<noteq> None)"

text \<open>\<open>new_exif[tag] = src_exif[tag]\<close>, run only under the guard \<open>tag in src_exif\<close>.\<close>

definition copy_tag :: "nat option \<Rightarrow> exif \<Rightarrow> exif \<Rightarrow> exif" where
  "copy_tag tag src new =
     (case tag of None \<Rightarrow> new
      | Some t \<Rightarrow> (case Mapping.lookup src t of None \<Rightarrow> new
                   | Some v \<Rightarrow> Mapping.update t v new))"

text \<open>Python truthiness of an optional string: neither \<open>None\<close> nor empty.\<close>

definition truthy :: "string option \<Rightarrow> bool" where
  "truthy s = (case s of None \<Rightarrow> False | Some t \<Rightarrow> t \<noteq> [])"

section \<open>Strings and paths\<close>

text \<open>
  Text is modelled as ASCII byte strings. \<open>str.strip\<close> removes the ASCII whitespace
  characters from both ends; \<open>str.lower\<close> maps \<open>A\<close>..\<open>Z\<close> to \<open>a\<close>..\<open>z\<close>.
\<close>

definition is_space :: "char \<Rightarrow> bool" where
  "is_space c = (of_char c \<in> {9, 10, 11, 12, 13, 28, 29, 30, 31, 32 :: nat})"

definition strip_str :: "string \<Rightarrow> string" where
  "strip_str s = rev (dropWhile is_space (rev (dropWhile is_space s)))"

definition lower_char :: "char \<Rightarrow> char" where
  "lower_char c = (let n = (of_char c :: nat) in
                   if 65 \<le> n \<and> n \<le> 90 then char_of (n + 32) else c)"

definition lower :: "string \<Rightarrow> string" where
  "lower s = map lower_char s"

text \<open>\<open>str.rfind\<close>: the index of the last occurrence of a character, if any.\<close>

fun rfind :: "char \<Rightarrow> string \<Rightarrow> nat option" where
  "rfind c [] = None"
| "rfind c (x # xs) =
     (case rfind c xs of Some i \<Rightarrow> Some (Suc i)
      | None \<Rightarrow> if x = c then Some 0 else None)"

fun split_on :: "char \<Rightarrow> string \<Rightarrow> string list" where
  "split_on c [] = [[]]"
| "split_on c (x # xs) =
     (if x = c then [] # split_on c xs
      else (case split_on c xs of [] \<Rightarrow> [[x]] | w # ws \<Rightarrow> (x # w) # ws))"

text \<open>
  A \<open>pathlib.Path\<close> is the list of its components; an absolute path starts with the
  component \<open>/\<close>. Parsing drops empty components and \<open>.\<close> components, as pathlib does.
\<close>

type_synonym path = "string list"

definition Path :: "string \<Rightarrow> path" where
  "Path s = (if s \<noteq> [] \<and> hd s = CHR ''/'' then [''/''] else []) @
            filter (\<lambda>c. c \<noteq> [] \<and> c \<noteq> ''.'') (split_on CHR ''/'' s)"

definition is_anchor :: "path \<Rightarrow> bool" where
  "is_anchor p = (p = [] \<or> p = [''/''])"

definition parent :: "path \<Rightarrow> path" where
  "parent p = (if is_anchor p then p else butlast p)"

definition name :: "path \<Rightarrow> string" where
  "name p = (if is_anchor p then [] else last p)"

definition suffix :: "path \<Rightarrow> string" where
  "suffix p = (let n = name p in
     case rfind CHR ''.'' n of None \<Rightarrow> []
     | Some i \<Rightarrow> if 0 < i \<and> i < length n - 1 then drop i n else [])"

definition stem :: "path \<Rightarrow> string" where
  "stem p = (let n = name p in
     case rfind CHR ''.'' n of None \<Rightarrow> n
     | Some i \<Rightarrow> if 0 < i \<and> i < length n - 1 then take i n else n)"

text \<open>\<open>d / n\<close> for a single relative component \<open>n\<close>.\<close>

definition joinpath :: "path \<Rightarrow> string \<Rightarrow> path" where
  "joinpath d n = d @ [n]"

fun join_with :: "string list \<Rightarrow> string" where
  "join_with [] = []"
| "join_with [c] = c"
| "join_with (c # cs) = c @ ''/'' @ join_with cs"

definition path_str :: "path \<Rightarrow> string" where
  "path_str p = (case p of [] \<Rightarrow> ''.''
                 | c # cs \<Rightarrow> if c = ''/'' then ''/'' @ join_with cs else join_with p)"

definition SUPPORTED_EXTS :: "string set" where
  "SUPPORTED_EXTS = {''.jpg'', ''.jpeg'', ''.png'', ''.webp'', ''.tif'', ''.tiff''}"

section \<open>The policy engine: \<open>build_new_exif\<close>\<close>

definition build_new_exif :: "exif \<Rightarrow> bool \<Rightarrow> bool \<Rightarrow> string option \<Rightarrow> exif" where
  "build_new_exif src_exif keep_date keep_orientation copyright_text =
     (let new0 = Mapping.empty;
          new1 = (if \<not> Mapping.is_empty src_exif
                  then (let a = (if keep_date \<and> tag_in TAG_DATETIME_ORIGINAL src_exif
                                 then copy_tag TAG_DATETIME_ORIGINAL src_exif new0 else new0)
                        in (if keep_orientation \<and> tag_in TAG_ORIENTATION src_exif
                            then copy_tag TAG_ORIENTATION src_exif a else a))
                  else new0)
      in (if truthy copyright_text \<and> TAG_COPYRIGHT \<noteq> None
          then Mapping.update (the TAG_COPYRIGHT) (EStr (the copyright_text)) new1
          else new1))"

section \<open>Image handles (the codec adapter)\<close>

datatype exc = Exc string

text \<open>
  An attribute read with \<open>getattr(obj, name, default)\<close>: the attribute is missing (the
  default is used), has a value, or its property raises an exception that \<open>getattr\<close>
  does not catch.
\<close>

datatype 'a attr = Missing | Value 'a | Raises exc

type_synonym buffer = "nat list list"

text \<open>
  What \<open>Image.open(p)\<close> followed by \<open>img.getexif()\<close> yields. The handle is positioned on
  the first frame; \<open>load_error\<close> is the error (if any) that decoding the pixel data raises.
\<close>

record image =
  format :: "string option"
  exif_data :: exif
  gps_ifd :: exif
  icc_profile :: "nat list option"
  dpi :: "(int \<times> int) option"
  is_animated :: "bool attr"
  n_frames :: "int attr"
  first_frame :: buffer
  more_frames :: "buffer list"
  load_error :: "exc option"

definition upper_char :: "char \<Rightarrow> char" where
  "upper_char c = (let n = (of_char c :: nat) in
                   if 97 \<le> n \<and> n \<le> 122 then char_of (n - 32) else c)"

definition upper :: "string \<Rightarrow> string" where
  "upper s = map upper_char s"

definition is_multiframe :: "image \<Rightarrow> bool" where
  "is_multiframe img =
     (case is_animated img of
        Raises e \<Rightarrow> False
      | Value True \<Rightarrow> True
      | _ \<Rightarrow> (case n_frames img of
                 Raises e \<Rightarrow> False
               | Missing \<Rightarrow> (1::int) > 1
               | Value n \<Rightarrow> n > 1))"

text \<open>
  \<open>ImageOps.exif_transpose\<close>, from the codec library's documentation: the Orientation
  value (2..8) selects a transposition that is applied to the pixels of a copy, and the
  Orientation tag is removed from the copy; any other value gives an unchanged copy.
\<close>

datatype transpose_method =
  FLIP_LEFT_RIGHT | ROTATE_180 | FLIP_TOP_BOTTOM | TRANSPOSE | ROTATE_270 | TRANSVERSE | ROTATE_90

fun apply_method :: "transpose_method \<Rightarrow> buffer \<Rightarrow> buffer" where
  "apply_method FLIP_LEFT_RIGHT b = map rev b"
| "apply_method ROTATE_180 b = rev (map rev b)"
| "apply_method FLIP_TOP_BOTTOM b = rev b"
| "apply_method TRANSPOSE b = transpose b"
| "apply_method ROTATE_270 b = map rev (transpose b)"
| "apply_method TRANSVERSE b = rev (map rev (transpose b))"
| "apply_method ROTATE_90 b = rev (transpose b)"

definition orientation_method :: "exif_value option \<Rightarrow> transpose_method option" where
  "orientation_method v =
     (case v of
        Some (EInt n) \<Rightarrow>
          (if n = 2 then Some FLIP_LEFT_RIGHT else if n = 3 then Some ROTATE_180
           else if n = 4 then Some FLIP_TOP_BOTTOM else if n = 5 then Some TRANSPOSE
           else if n = 6 then Some ROTATE_270 else if n = 7 then Some TRANSVERSE
           else if n = 8 then Some ROTATE_90 else None)
      | _ \<Rightarrow> None)"

definition transposed_pixels :: "image \<Rightarrow> buffer" where
  "transposed_pixels img =
     (case orientation_method (Mapping.lookup (exif_data img) 274) of
        None \<Rightarrow> first_frame img
      | Some m \<Rightarrow> apply_method m (first_frame img))"

definition exif_transpose :: "image \<Rightarrow> exc + image" where
  "exif_transpose img =
     (case load_error img of
        Some e \<Rightarrow> Inl e
      | None \<Rightarrow>
          Inr (img\<lparr>format := None, more_frames := [],
                   first_frame := transposed_pixels img,
                   exif_data := (case orientation_method (Mapping.lookup (exif_data img) 274) of
                                   None \<Rightarrow> exif_data img
                                 | Some m \<Rightarrow> Mapping.delete 274 (exif_data img))\<rparr>))"

section \<open>Save options and the file system\<close>

text \<open>
  The keyword options of \<open>img.save\<close>. \<open>exif_kw = Some m\<close> stands for the bytes that
  serialise the mapping \<open>m\<close> (the empty mapping for \<open>b""\<close>); \<open>pnginfo_kw\<close> says that an
  empty \<open>PngInfo\<close> container was passed.
\<close>

record save_kwargs =
  exif_kw :: "exif option"
  quality_kw :: "int option"
  progressive_kw :: "bool option"
  optimize_kw :: "bool option"
  icc_profile_kw :: "nat list option"
  dpi_kw :: "(int \<times> int) option"
  pnginfo_kw :: bool

definition no_kwargs :: save_kwargs where
  "no_kwargs = \<lparr>exif_kw = None, quality_kw = None, progressive_kw = None, optimize_kw = None,
                icc_profile_kw = None, dpi_kw = None, pnginfo_kw = False\<rparr>"

text \<open>
  A file holds an input of the run (described by what opening it yields), a temporary
  file just created, a half-written encoding, or the encoding of a pixel buffer under
  the given save options.
\<close>

datatype content = Original "exc + image" | Empty | Partial | Saved buffer save_kwargs

datatype node = Dir | File content

datatype fs_op = OpMkdir path | OpCreate path | OpWrite path | OpRename path path | OpUnlink path

record fsys =
  nodes :: "path \<Rightarrow> node option"
  oplog :: "fs_op list"

text \<open>
  The failures the environment injects into one atomic write, and the random parts of
  the temporary names the name generator offers, in order.
\<close>

record faults =
  mkdir_fault :: "exc option"
  mktemp_fault :: "exc option"
  save_fault :: "exc option"
  replace_fault :: "exc option"
  unlink_fault :: "exc option"
  tmp_names :: "string list"

definition is_dir :: "fsys \<Rightarrow> path \<Rightarrow> bool" where
  "is_dir fs p = (is_anchor p \<or> nodes fs p = Some Dir)"

definition log_op :: "fs_op \<Rightarrow> fsys \<Rightarrow> fsys" where
  "log_op x fs = fs\<lparr>oplog := oplog fs @ [x]\<rparr>"

definition put_node :: "path \<Rightarrow> node option \<Rightarrow> fsys \<Rightarrow> fsys" where
  "put_node p n fs = fs\<lparr>nodes := (nodes fs)(p := n)\<rparr>"

text \<open>\<open>mkdir(parents=True, exist_ok=True)\<close>: every missing level is created, outermost first.\<close>

fun mkdirs :: "path list \<Rightarrow> fsys \<Rightarrow> exc option \<times> fsys" where
  "mkdirs [] fs = (None, fs)"
| "mkdirs (d # ds) fs =
     (case nodes fs d of
        Some Dir \<Rightarrow> mkdirs ds fs
      | Some (File c) \<Rightarrow> (Some (Exc (''File exists: '' @ path_str d)), fs)
      | None \<Rightarrow> mkdirs ds (log_op (OpMkdir d) (put_node d (Some Dir) fs)))"

definition levels :: "path \<Rightarrow> path list" where
  "levels d = filter (\<lambda>q. \<not> is_anchor q) (map (\<lambda>n. take n d) [1..<Suc (length d)])"

definition mkdir_parents :: "faults \<Rightarrow> fsys \<Rightarrow> path \<Rightarrow> exc option \<times> fsys" where
  "mkdir_parents fl fs d =
     (case mkdir_fault fl of Some e \<Rightarrow> (Some e, fs) | None \<Rightarrow> mkdirs (levels d) fs)"

text \<open>
  \<open>tempfile.NamedTemporaryFile(dir=d, delete=False, suffix=sfx)\<close>: the first offered name
  that does not exist yet is created exclusively, as an empty file.
\<close>

definition tmp_path :: "path \<Rightarrow> string \<Rightarrow> string \<Rightarrow> path" where
  "tmp_path d rnd sfx = joinpath d (''tmp'' @ rnd @ sfx)"

definition named_temporary_file :: "faults \<Rightarrow> fsys \<Rightarrow> path \<Rightarrow> string \<Rightarrow> (exc + path) \<times> fsys" where
  "named_temporary_file fl fs d sfx =
     (case mktemp_fault fl of
        Some e \<Rightarrow> (Inl e, fs)
      | None \<Rightarrow>
          (case find (\<lambda>r. nodes fs (tmp_path d r sfx) = None) (tmp_names fl) of
             None \<Rightarrow> (Inl (Exc ''No usable temporary file name found''), fs)
           | Some r \<Rightarrow> (Inr (tmp_path d r sfx),
                        log_op (OpCreate (tmp_path d r sfx))
                          (put_node (tmp_path d r sfx) (Some (File Empty)) fs))))"

text \<open>
  \<open>img.save(tmp_name, **save_kwargs)\<close>: writes the current frame; a failure leaves a
  half-written file behind.
\<close>

definition image_save :: "faults \<Rightarrow> fsys \<Rightarrow> image \<Rightarrow> path \<Rightarrow> save_kwargs \<Rightarrow> exc option \<times> fsys" where
  "image_save fl fs img p kw =
     (case load_error img of
        Some e \<Rightarrow> (Some e, log_op (OpWrite p) (put_node p (Some (File Partial)) fs))
      | None \<Rightarrow>
          (case save_fault fl of
             Some e \<Rightarrow> (Some e, log_op (OpWrite p) (put_node p (Some (File Partial)) fs))
           | None \<Rightarrow> (None, log_op (OpWrite p)
                               (put_node p (Some (File (Saved (first_frame img) kw))) fs))))"

text \<open>\<open>Path(src).replace(dst)\<close>: an atomic rename that overwrites a file at \<open>dst\<close>.\<close>

definition replace :: "faults \<Rightarrow> fsys \<Rightarrow> path \<Rightarrow> path \<Rightarrow> exc option \<times> fsys" where
  "replace fl fs src dst =
     (case replace_fault fl of
        Some e \<Rightarrow> (Some e, fs)
      | None \<Rightarrow>
          if nodes fs dst = Some Dir then (Some (Exc (''Is a directory: '' @ path_str dst)), fs)
          else if src = dst then (None, log_op (OpRename src dst) fs)
          else (None, log_op (OpRename src dst)
                        (put_node src None (put_node dst (nodes fs src) fs))))"

text \<open>\<open>Path(p).unlink(missing_ok=True)\<close>.\<close>

definition unlink :: "faults \<Rightarrow> fsys \<Rightarrow> path \<Rightarrow> exc option \<times> fsys" where
  "unlink fl fs p =
     (case unlink_fault fl of
        Some e \<Rightarrow> (Some e, fs)
      | None \<Rightarrow> if nodes fs p = None then (None, fs)
                else (None, log_op (OpUnlink p) (put_node p None fs)))"

section \<open>The atomic writer: \<open>save_atomic\<close>\<close>

text \<open>The \<open>except\<close> handler: best-effort removal of the temporary file, then re-raise.\<close>

definition cleanup_and_raise :: "faults \<Rightarrow> fsys \<Rightarrow> path \<Rightarrow> exc \<Rightarrow> exc option \<times> fsys" where
  "cleanup_and_raise fl fs tmp e = (Some e, snd (unlink fl fs tmp))"

definition save_atomic :: "faults \<Rightarrow> fsys \<Rightarrow> image \<Rightarrow> path \<Rightarrow> save_kwargs \<Rightarrow> exc option \<times> fsys" where
  "save_atomic fl fs img outpath kw =
     (case mkdir_parents fl fs (parent outpath) of
        (Some e, fs1) \<Rightarrow> (Some e, fs1)
      | (None, fs1) \<Rightarrow>
          (case named_temporary_file fl fs1 (parent outpath) (suffix outpath) of
             (Inl e, fs2) \<Rightarrow> (Some e, fs2)
           | (Inr tmp, fs2) \<Rightarrow>
               (case image_save fl fs2 img tmp kw of
                  (Some e, fs3) \<Rightarrow> cleanup_and_raise fl fs3 tmp e
                | (None, fs3) \<Rightarrow>
                    (case replace fl fs3 tmp outpath of
                       (Some e, fs4) \<Rightarrow> cleanup_and_raise fl fs4 tmp e
                     | (None, fs4) \<Rightarrow> (None, fs4)))))"

section \<open>Strip: \<open>strip_metadata\<close>\<close>

text \<open>
  \<open>Image.open(p)\<close> with \<open>img.getexif()\<close>. A file this program wrote is decoded by the
  codec, which is a parameter (\<open>reopen\<close>).
\<close>

definition image_open ::
  "(buffer \<Rightarrow> save_kwargs \<Rightarrow> exc + image) \<Rightarrow> fsys \<Rightarrow> path \<Rightarrow> exc + image" where
  "image_open reopen fs p =
     (case nodes fs p of
        None \<Rightarrow> Inl (Exc (''No such file or directory: '' @ path_str p))
      | Some Dir \<Rightarrow> Inl (Exc (''Is a directory: '' @ path_str p))
      | Some (File (Original r)) \<Rightarrow> r
      | Some (File (Saved b kw)) \<Rightarrow> reopen b kw
      | Some (File c) \<Rightarrow> Inl (Exc (''cannot identify image file '' @ path_str p)))"

fun exc_str :: "exc \<Rightarrow> string" where
  "exc_str (Exc s) = s"

text \<open>The arrow of the \<open>[OK]\<close> lines, U+2192 in UTF-8.\<close>

definition arrow :: string where
  "arrow = [CHR 0xE2, CHR 0x86, CHR 0x92]"

record strip_opts =
  outdir :: "string option"
  copyright_text :: "string option"
  keep_date :: bool
  keep_orientation :: bool
  keep_icc :: bool
  keep_dpi :: bool
  inplace :: bool
  force :: bool
  quality :: int
  progressive :: "int option"

definition out_name :: "strip_opts \<Rightarrow> path \<Rightarrow> path" where
  "out_name opts p =
     (if inplace opts then p
      else joinpath (if truthy (outdir opts) then Path (the (outdir opts)) else parent p)
             (stem p @ ''_clean'' @ suffix p))"

text \<open>\<open>if icc_profile:\<close> keeps non-empty bytes; \<open>if dpi:\<close> keeps any pair.\<close>

definition truthy_bytes :: "nat list option \<Rightarrow> nat list option" where
  "truthy_bytes b = (case b of Some (x # xs) \<Rightarrow> Some (x # xs) | _ \<Rightarrow> None)"

definition exif_family :: "string set" where
  "exif_family = {''JPEG'', ''JPG'', ''TIFF'', ''WEBP''}"

definition jpeg_family :: "string set" where
  "jpeg_family = {''JPEG'', ''JPG''}"

text \<open>The save options of the three branches of the format dispatch.\<close>

definition exif_branch_kwargs ::
  "string \<Rightarrow> exif \<Rightarrow> strip_opts \<Rightarrow> nat list option \<Rightarrow> (int \<times> int) option \<Rightarrow> save_kwargs" where
  "exif_branch_kwargs fmt new_exif opts icc d =
     \<lparr>exif_kw = Some (if \<not> Mapping.is_empty new_exif then new_exif else Mapping.empty),
      quality_kw = (if fmt \<in> jpeg_family then Some (quality opts) else None),
      progressive_kw = (if fmt \<in> jpeg_family
                        then (case progressive opts of None \<Rightarrow> None | Some n \<Rightarrow> Some (n \<noteq> 0))
                        else None),
      optimize_kw = (if fmt \<in> jpeg_family then Some True else None),
      icc_profile_kw = truthy_bytes icc,
      dpi_kw = d,
      pnginfo_kw = False\<rparr>"

definition png_branch_kwargs :: "nat list option \<Rightarrow> (int \<times> int) option \<Rightarrow> save_kwargs" where
  "png_branch_kwargs icc d =
     no_kwargs\<lparr>icc_profile_kw := truthy_bytes icc, dpi_kw := d, pnginfo_kw := True\<rparr>"

definition ok_lines :: "strip_opts \<Rightarrow> string \<Rightarrow> path \<Rightarrow> string list" where
  "ok_lines opts path outname =
     [if inplace opts then ''[OK] Stripped metadata IN PLACE '' @ arrow @ '' '' @ path_str outname
      else ''[OK] Cleaned '' @ path @ '' '' @ arrow @ '' '' @ path_str outname] @
     (if truthy (copyright_text opts) then [''[OK] Added copyright: '' @ the (copyright_text opts)]
      else [])"

definition save_error_line :: "path \<Rightarrow> exc \<Rightarrow> string" where
  "save_error_line outname e = ''[ERROR] Could not save '' @ path_str outname @ '': '' @ exc_str e"

definition open_error_line :: "string \<Rightarrow> exc \<Rightarrow> string" where
  "open_error_line p e = ''[ERROR] Cannot open '' @ p @ '': '' @ exc_str e"

definition animated_skip_line :: "path \<Rightarrow> string" where
  "animated_skip_line p =
     ''[SKIP] Animated/multi-frame image: '' @ path_str p @ '' (use --force to process first frame)''"

definition fallback_warn_line :: "string \<Rightarrow> path \<Rightarrow> string" where
  "fallback_warn_line fmt p =
     ''[WARN] Unknown/less-tested format '' @ (if fmt \<noteq> [] then fmt else suffix p) @
     ''; saved without explicit metadata.''"

text \<open>
  The \<open>try\<close>/\<open>except\<close> around each call of \<open>save_atomic\<close>: a failure is reported and
  ends the function, a success goes on to the \<open>[OK]\<close> lines.
\<close>

definition save_report :: "exc option \<times> fsys \<Rightarrow> path \<Rightarrow> string list \<Rightarrow> string list \<times> fsys" where
  "save_report r outname oks =
     (case r of
        (Some e, fs') \<Rightarrow> ([save_error_line outname e], fs')
      | (None, fs') \<Rightarrow> (oks, fs'))"

text \<open>The format dispatch with the save, from \<open>save_kwargs = {}\<close> to the end of the function.\<close>

definition dispatch_save ::
  "faults \<Rightarrow> fsys \<Rightarrow> string \<Rightarrow> strip_opts \<Rightarrow> string \<Rightarrow> image \<Rightarrow> image \<Rightarrow> string list \<times> fsys" where
  "dispatch_save fl fs path opts fmt src img =
     (let p = Path path;
          icc = (if keep_icc opts then icc_profile src else None);
          d = (if keep_dpi opts then dpi src else None);
          outname = out_name opts p;
          new_exif = build_new_exif (exif_data src) (keep_date opts) (keep_orientation opts)
                       (copyright_text opts)
      in if fmt \<in> exif_family then
           save_report (save_atomic fl fs img outname (exif_branch_kwargs fmt new_exif opts icc d))
             outname (ok_lines opts path outname)
         else if fmt = ''PNG'' then
           save_report (save_atomic fl fs img outname (png_branch_kwargs icc d))
             outname (ok_lines opts path outname)
         else
           save_report (save_atomic fl fs img outname no_kwargs)
             outname (fallback_warn_line fmt p # ok_lines opts path outname))"

definition strip_metadata ::
  "(buffer \<Rightarrow> save_kwargs \<Rightarrow> exc + image) \<Rightarrow> faults \<Rightarrow> fsys \<Rightarrow> string \<Rightarrow> strip_opts
     \<Rightarrow> string list \<times> fsys" where
  "strip_metadata reopen fl fs path opts =
     (let p = Path path in
      case image_open reopen fs p of
        Inl e \<Rightarrow> ([open_error_line (path_str p) e], fs)
      | Inr src \<Rightarrow>
          (let fmt = upper (case format src of None \<Rightarrow> [] | Some f \<Rightarrow> f) in
           if is_multiframe src \<and> \<not> force opts then ([animated_skip_line p], fs)
           else if \<not> keep_orientation opts then
             (case exif_transpose src of
                Inl e \<Rightarrow> ([open_error_line (path_str p) e], fs)
              | Inr img \<Rightarrow> dispatch_save fl fs path opts fmt src img)
           else dispatch_save fl fs path opts fmt src src))"

section \<open>Scan: \<open>scan_metadata\<close>\<close>

text \<open>
  The name tables of the codec library (\<open>ExifTags.TAGS\<close>, \<open>ExifTags.GPSTAGS\<close>) and the
  rendering of a value by \<open>str\<close> are parameters. Mappings are listed in key order.
\<close>

record registry =
  tag_names :: "nat \<Rightarrow> string option"
  gps_names :: "nat \<Rightarrow> string option"
  show_value :: "exif_value \<Rightarrow> string"

fun show_nat :: "nat \<Rightarrow> string" where
  "show_nat n = (if n < 10 then [char_of (48 + n)]
                 else show_nat (n div 10) @ [char_of (48 + n mod 10)])"

definition items :: "exif \<Rightarrow> (nat \<times> exif_value) list" where
  "items m = map (\<lambda>k. (k, the (Mapping.lookup m k))) (Mapping.ordered_keys m)"

definition pretty_exif_items :: "registry \<Rightarrow> exif \<Rightarrow> (string \<times> exif_value) list" where
  "pretty_exif_items r m =
     map (\<lambda>(tag_id, val).
            ((case tag_names r tag_id of Some n \<Rightarrow> n
              | None \<Rightarrow> ''Unknown('' @ show_nat tag_id @ '')''), val)) (items m)"

definition gps_lines :: "registry \<Rightarrow> exif \<Rightarrow> string list" where
  "gps_lines r g =
     ''---- GPS ----'' #
     map (\<lambda>(k, v). (case gps_names r k of Some n \<Rightarrow> n | None \<Rightarrow> ''GPS_'' @ show_nat k) @
                    '': '' @ show_value r v) (items g)"

definition scan_metadata ::
  "(buffer \<Rightarrow> save_kwargs \<Rightarrow> exc + image) \<Rightarrow> registry \<Rightarrow> fsys \<Rightarrow> string \<Rightarrow> bool \<Rightarrow> bool
     \<Rightarrow> string list \<times> bool" where
  "scan_metadata reopen r fs path verbose show_gps =
     (case image_open reopen fs (Path path) of
        Inl e \<Rightarrow> (if verbose then [open_error_line path e] else [], False)
      | Inr img \<Rightarrow>
          if Mapping.is_empty (exif_data img)
          then (if verbose then [''[INFO] No EXIF metadata found in '' @ path] else [], False)
          else
            ((if verbose then
                (''=== Metadata for '' @ path @ '' ==='') #
                map (\<lambda>(tag, val). tag @ '': '' @ show_value r val)
                  (pretty_exif_items r (exif_data img)) @
                (if show_gps \<and> Mapping.lookup (exif_data img) TAG_GPS_IFD \<noteq> None
                    \<and> \<not> Mapping.is_empty (gps_ifd img)
                 then gps_lines r (gps_ifd img) else [])
              else []), True))"

section \<open>The batch driver: \<open>files_from_stdin_or_args\<close> and \<open>main\<close>\<close>

text \<open>
  Standard input is \<open>None\<close> when it is a terminal, and otherwise the list of its lines.
\<close>

definition files_from_stdin_or_args :: "string list option \<Rightarrow> string list \<Rightarrow> string list" where
  "files_from_stdin_or_args stdin files =
     (case stdin of None \<Rightarrow> []
      | Some ls \<Rightarrow> filter (\<lambda>l. l \<noteq> []) (map strip_str ls)) @ files"

record args =
  scan :: bool
  strip :: bool
  positives :: bool
  show_gps :: bool
  copyright :: "string option"
  a_keep_date :: bool
  a_keep_orientation :: bool
  a_keep_icc :: bool
  a_keep_dpi :: bool
  a_force :: bool
  a_inplace :: bool
  a_outdir :: string
  a_quality :: int
  a_progressive :: "int option"
  files :: "string list"

definition strip_opts_of :: "args \<Rightarrow> strip_opts" where
  "strip_opts_of a =
     \<lparr>outdir = Some (a_outdir a), copyright_text = copyright a, keep_date = a_keep_date a,
      keep_orientation = a_keep_orientation a, keep_icc = a_keep_icc a,
      keep_dpi = a_keep_dpi a, inplace = a_inplace a, force = a_force a,
      quality = a_quality a, progressive = a_progressive a\<rparr>"

text \<open>
  The environment of a run: the codec, the name tables, the failures injected into the
  atomic write of the \<open>i\<close>-th candidate, and those of the start-up \<open>mkdir\<close>.
\<close>

record env =
  reopen :: "buffer \<Rightarrow> save_kwargs \<Rightarrow> exc + image"
  names :: registry
  faults_at :: "nat \<Rightarrow> faults"
  startup :: faults

text \<open>The driver's state: standard output, the calls dispatched so far, the file system.\<close>

datatype call = ScanCall string | StripCall string

record run_state =
  out :: "string list"
  calls :: "call list"
  fsy :: fsys

definition print :: "string list \<Rightarrow> run_state \<Rightarrow> run_state" where
  "print ls st = st\<lparr>out := out st @ ls\<rparr>"

definition do_scan :: "env \<Rightarrow> args \<Rightarrow> string \<Rightarrow> run_state \<Rightarrow> run_state" where
  "do_scan en a path st =
     (case scan_metadata (reopen en) (names en) (fsy st) path (\<not> positives a) (show_gps a) of
        (ls, has_meta) \<Rightarrow>
          print (ls @ (if positives a \<and> has_meta then [path] else []))
            (st\<lparr>calls := calls st @ [ScanCall path]\<rparr>))"

definition do_strip :: "env \<Rightarrow> args \<Rightarrow> nat \<Rightarrow> string \<Rightarrow> run_state \<Rightarrow> run_state" where
  "do_strip en a i path st =
     (case strip_metadata (reopen en) (faults_at en i) (fsy st) path (strip_opts_of a) of
        (ls, fs') \<Rightarrow> print ls (st\<lparr>calls := calls st @ [StripCall path], fsy := fs'\<rparr>))"

text \<open>The body of the \<open>for\<close> loop for the \<open>i\<close>-th candidate.\<close>

definition process_file :: "env \<Rightarrow> args \<Rightarrow> nat \<Rightarrow> string \<Rightarrow> run_state \<Rightarrow> run_state" where
  "process_file en a i path st =
     (let p = Path path in
      if is_dir (fsy st) p then print [''[SKIP] Directory: '' @ path_str p] st
      else if lower (suffix p) \<notin> SUPPORTED_EXTS
      then print [''[SKIP] Not a supported image type: '' @ path_str p] st
      else
        (let st1 = (if scan a then do_scan en a path st else st)
         in (if strip a then do_strip en a i path st1 else st1)))"

fun run_files :: "env \<Rightarrow> args \<Rightarrow> nat \<Rightarrow> string list \<Rightarrow> run_state \<Rightarrow> run_state" where
  "run_files en a i [] st = st"
| "run_files en a i (c # cs) st = run_files en a (Suc i) cs (process_file en a i c st)"

datatype status = Exit nat | Crash exc

definition help_text :: "string list" where
  "help_text = [''usage: metaclean [-h] [--scan] [--strip] ... [files ...]'']"

definition main :: "env \<Rightarrow> args \<Rightarrow> string list option \<Rightarrow> fsys \<Rightarrow> status \<times> run_state" where
  "main en a stdin fs =
     (let st0 = \<lparr>out = [], calls = [], fsy = fs\<rparr> in
      if \<not> scan a \<and> \<not> strip a then (Exit 0, print help_text st0)
      else
        (case (if strip a \<and> \<not> a_inplace a
               then mkdir_parents (startup en) fs (Path (a_outdir a)) else (None, fs)) of
           (Some e, fs1) \<Rightarrow> (Crash e, st0\<lparr>fsy := fs1\<rparr>)
         | (None, fs1) \<Rightarrow>
             (let cands = files_from_stdin_or_args stdin (files a);
                  st = run_files en a 0 cands (st0\<lparr>fsy := fs1\<rparr>)
              in if cands = []
                 then (Exit 0, print (if \<not> (scan a \<or> strip a) then help_text
                                      else [''[INFO] No files provided on CLI or stdin.'']) st)
                 else (Exit 0, st))))"

section \<open>Notions used to state the properties\<close>

text \<open>A line starts with a given prefix.\<close>

definition starts_with :: "string \<Rightarrow> string \<Rightarrow> bool" where
  "starts_with pre s = (take (length pre) s = pre)"

text \<open>
  Probing the animation status raises: either reading \<open>is_animated\<close> raises, or it is
  missing or false and reading \<open>n_frames\<close>, which is then evaluated, raises.
\<close>

definition probe_raises :: "image \<Rightarrow> bool" where
  "probe_raises img =
     (case is_animated img of
        Raises e \<Rightarrow> True
      | Value True \<Rightarrow> False
      | _ \<Rightarrow> (case n_frames img of Raises e \<Rightarrow> True | _ \<Rightarrow> False))"

text \<open>The file-system operations a step added to the log, and those that touch a path.\<close>

definition new_ops :: "fsys \<Rightarrow> fsys \<Rightarrow> fs_op list" where
  "new_ops fs fs' = drop (length (oplog fs)) (oplog fs')"

fun touches :: "path \<Rightarrow> fs_op \<Rightarrow> bool" where
  "touches q (OpMkdir p) = (p = q)"
| "touches q (OpCreate p) = (p = q)"
| "touches q (OpWrite p) = (p = q)"
| "touches q (OpRename a b) = (a = q \<or> b = q)"
| "touches q (OpUnlink p) = (p = q)"

text \<open>The first error of the encode step or, when it succeeds, of the rename step.\<close>

definition encode_or_rename_error ::
  "faults \<Rightarrow> fsys \<Rightarrow> image \<Rightarrow> path \<Rightarrow> path \<Rightarrow> save_kwargs \<Rightarrow> exc option" where
  "encode_or_rename_error fl fs2 img tmp outpath kw =
     (case image_save fl fs2 img tmp kw of
        (Some e, fs3) \<Rightarrow> Some e
      | (None, fs3) \<Rightarrow> fst (replace fl fs3 tmp outpath))"

text \<open>The save options the format dispatch selects, and the tags an encoding carries.\<close>

definition chosen_kwargs :: "strip_opts \<Rightarrow> image \<Rightarrow> save_kwargs" where
  "chosen_kwargs opts src =
     (let fmt = upper (case format src of None \<Rightarrow> [] | Some f \<Rightarrow> f);
          icc = (if keep_icc opts then icc_profile src else None);
          d = (if keep_dpi opts then dpi src else None)
      in if fmt \<in> exif_family
         then exif_branch_kwargs fmt
                (build_new_exif (exif_data src) (keep_date opts) (keep_orientation opts)
                   (copyright_text opts)) opts icc d
         else if fmt = ''PNG'' then png_branch_kwargs icc d
         else no_kwargs)"

definition saved_tags :: "save_kwargs \<Rightarrow> exif" where
  "saved_tags kw = (case exif_kw kw of None \<Rightarrow> Mapping.empty | Some m \<Rightarrow> m)"

section \<open>Concrete inputs\<close>

definition sample_image :: image where
  "sample_image =
     \<lparr>format = Some ''JPEG'',
      exif_data = Mapping.update 274 (EInt 6)
                    (Mapping.update 33432 (EStr ''old owner'')
                       (Mapping.update 36867 (EStr ''2020:01:01 10:00:00'') Mapping.empty)),
      gps_ifd = Mapping.empty, icc_profile = None, dpi = None,
      is_animated = Missing, n_frames = Missing,
      first_frame = [[1, 2], [3, 4]], more_frames = [], load_error = None\<rparr>"

definition fs_with :: "(string \<times> node) list \<Rightarrow> fsys" where
  "fs_with xs = \<lparr>nodes = map_of (map (\<lambda>(s, n). (Path s, n)) xs), oplog = []\<rparr>"

definition no_faults :: faults where
  "no_faults = \<lparr>mkdir_fault = None, mktemp_fault = None, save_fault = None,
                replace_fault = None, unlink_fault = None, tmp_names = [''k3x9q0ab'']\<rparr>"

definition no_reopen :: "buffer \<Rightarrow> save_kwargs \<Rightarrow> exc + image" where
  "no_reopen b kw = Inl (Exc ''cannot identify image file'')"

definition default_opts :: strip_opts where
  "default_opts =
     \<lparr>outdir = Some ''out'', copyright_text = None, keep_date = False,
      keep_orientation = False, keep_icc = False, keep_dpi = False, inplace = False,
      force = False, quality = 95, progressive = None\<rparr>"

section \<open>Facts about the registry\<close>

lemma tag_values:
  "TAG_DATETIME_ORIGINAL = Some 36867" "TAG_ORIENTATION = Some 274"
  "TAG_COPYRIGHT = Some 33432" "TAG_GPS_IFD = 34853"
  by (simp_all add: TAG_DATETIME_ORIGINAL_def TAG_ORIENTATION_def TAG_COPYRIGHT_def
        TAG_GPS_IFD_def EXIF_TAGS_REVERSE_def)

lemma is_empty_lookup: "Mapping.is_empty m \<Longrightarrow> Mapping.lookup m k = None"
  by (simp add: Mapping.is_empty_def keys_dom_lookup domIff)

lemma build_new_exif_lookup:
  "Mapping.lookup (build_new_exif src kd ko c) t =
     (if t = 33432 \<and> truthy c then Some (EStr (the c))
      else if t = 274 \<and> ko then Mapping.lookup src 274
      else if t = 36867 \<and> kd then Mapping.lookup src 36867
      else None)"
  by (cases "Mapping.is_empty src")
     (auto simp: build_new_exif_def tag_values tag_in_def copy_tag_def Let_def
        lookup_update' is_empty_lookup split: option.splits)

section \<open>C1: the replacement tag mapping\<close>

text \<open>
  C1, as stated, fails. The claim puts Copyright into the replacement mapping whenever a
  copyright string was provided. The guard of \<open>build_new_exif\<close> is the truthiness of the
  string: the empty string, provided with \<open>--copyright ""\<close>, sets no Copyright tag.
\<close>

theorem build_new_exif_empty_copyright_counterexample:
  "Mapping.lookup (build_new_exif Mapping.empty False False (Some [])) (the TAG_COPYRIGHT) = None"
  by (simp add: build_new_exif_lookup tag_values truthy_def)

text \<open>
  C1, amended: for every source mapping and policy, the replacement mapping holds
  DateTimeOriginal with the source value iff \<open>keep_date\<close> and the tag is in the source,
  Orientation with the source value iff \<open>keep_orientation\<close> and the tag is in the
  source, Copyright set to the supplied string iff a non-empty string was supplied
  (whatever the source holds), and no other tag. Stated as the value of every lookup.
\<close>

theorem build_new_exif_tags:
  "Mapping.lookup (build_new_exif src kd ko c) t =
     (if Some t = TAG_COPYRIGHT \<and> truthy c then Some (EStr (the c))
      else if Some t = TAG_ORIENTATION \<and> ko then Mapping.lookup src t
      else if Some t = TAG_DATETIME_ORIGINAL \<and> kd then Mapping.lookup src t
      else None)"
  by (simp add: build_new_exif_lookup tag_values)

end
